theory Spec2Isabelle
  imports Complex_Main "HOL-Library.Log_Nat"
begin

section \<open>The T1D simulation tool of fastMCP_adapter.py\<close>

text \<open>
  The module wraps the py_mgipsim engine as one tool, \<open>simulate_glucose_dynamics\<close>.
  The engine itself is not part of the adapter: its entry points are the fields of the
  record \<open>engine\<close> below, each one an arbitrary function that may change the process
  and may raise. Everything the adapter does around these calls is translated from the
  source.

  Conventions of the embedding.
  \<^item> Python values whose type the adapter never inspects are values of \<open>pyval\<close>.
  \<^item> A Python \<open>int\<close> is an \<open>int\<close>. The quotient of two of them is rounded to a float64
    as Python's division does. The float64 values of the engine's arrays are read as
    \<open>real\<close>: their arithmetic and comparisons are exact, and there is neither NaN nor
    infinity.
  \<^item> An exception is a value \<open>PyExc cls msg\<close>, with \<open>str(e) = msg\<close>; a computation that
    may raise returns \<open>py_exception + 'a\<close>, with \<open>Inl\<close> for the raise. \<open>is_Exception\<close>
    says whether the class derives from \<open>Exception\<close>, which is what \<open>except Exception\<close>
    asks. Of numpy's IndexError messages the model keeps the leading words, without the
    index and the sizes.
  \<^item> A function that touches the process takes the process state and returns the new one
    beside its result, also when it raises.
\<close>

subsection \<open>Python values and exceptions\<close>

datatype pyval =
    PyNone
  | PyBool bool
  | PyInt int
  | PyFloat real
  | PyStr string
  | PyList "pyval list"

text \<open>Truth value of a Python object, as \<open>not x\<close> and \<open>if x\<close> test it.\<close>

fun py_truthy :: "pyval \<Rightarrow> bool" where
  "py_truthy PyNone = False"
| "py_truthy (PyBool b) = b"
| "py_truthy (PyInt n) = (n \<noteq> 0)"
| "py_truthy (PyFloat x) = (x \<noteq> 0)"
| "py_truthy (PyStr s) = (s \<noteq> [])"
| "py_truthy (PyList vs) = (vs \<noteq> [])"

datatype py_exception = PyExc (exc_class: string) (exc_msg: string)

text \<open>
  The built-in classes that derive from \<open>BaseException\<close> and not from \<open>Exception\<close>;
  an exception of any other class is an instance of \<open>Exception\<close>.
\<close>

definition is_Exception :: "py_exception \<Rightarrow> bool" where
  "is_Exception e =
     (exc_class e \<notin> set [''BaseException'', ''SystemExit'', ''KeyboardInterrupt'',
                           ''GeneratorExit''])"

text \<open>
  \<open>argparse.Namespace\<close>: attribute names to values. \<open>hasattr(args, k)\<close> is
  \<open>args k \<noteq> None\<close>, and assigning an attribute is a map update.
\<close>

type_synonym namespace = "string \<Rightarrow> pyval option"

definition hasattr :: "namespace \<Rightarrow> string \<Rightarrow> bool" where
  "hasattr args k = (args k \<noteq> None)"

definition quoted :: "string \<Rightarrow> string" where
  "quoted s = CHR 0x27 # s @ [CHR 0x27]"

definition getattr :: "namespace \<Rightarrow> string \<Rightarrow> py_exception + pyval" where
  "getattr args k =
     (case args k of
        None \<Rightarrow> Inl (PyExc ''AttributeError''
                   (quoted ''Namespace'' @ '' object has no attribute '' @ quoted k))
      | Some v \<Rightarrow> Inr v)"

subsection \<open>The quotient of two integers\<close>

text \<open>Rounding to the nearest integer, a tie going to the even one.\<close>

definition round_half_even :: "real \<Rightarrow> int" where
  "round_half_even x =
     (let f = \<lfloor>x\<rfloor>; d = x - real_of_int f
      in if d < 1 / 2 then f
         else if 1 / 2 < d then f + 1
         else if even f then f else f + 1)"

definition pow2 :: "int \<Rightarrow> real" where
  "pow2 k = (if 0 \<le> k then 2 ^ nat k else 1 / 2 ^ nat (- k))"

text \<open>
  The binary exponent of the quotient of two positive integers: the \<open>e\<close> with
  \<open>2 ^ e \<le> a / b < 2 ^ (e + 1)\<close>, from the bit lengths of the two.
\<close>

definition quotient_exponent :: "int \<Rightarrow> int \<Rightarrow> int" where
  "quotient_exponent a b =
     (let k = bitlen a - bitlen b
      in if real_of_int b * pow2 k \<le> real_of_int a then k else k - 1)"

text \<open>
  The float64 nearest to \<open>x\<close>, whose binary exponent is \<open>e\<close>, a tie going to the even
  significand: 53 bits of significand, and the spacing of the subnormal numbers below
  \<open>2 ^ - 1022\<close>.
\<close>

definition float64_round :: "int \<Rightarrow> real \<Rightarrow> real" where
  "float64_round e x =
     (let ulp = pow2 (max (- 1022) e - 52)
      in real_of_int (round_half_even (x / ulp)) * ulp)"

text \<open>
  \<open>a / b\<close> for two Python integers: the exact quotient rounded once, ZeroDivisionError
  for a zero divisor and OverflowError when the result is beyond the float64 range.
\<close>

definition int_true_divide :: "int \<Rightarrow> int \<Rightarrow> py_exception + real" where
  "int_true_divide a b =
     (if b = 0 then Inl (PyExc ''ZeroDivisionError'' ''division by zero'')
      else if a = 0 then Inr 0
      else
        let y = float64_round (quotient_exponent \<bar>a\<bar> \<bar>b\<bar>) (real_of_int a / real_of_int b)
        in if 2 ^ 1024 \<le> \<bar>y\<bar>
           then Inl (PyExc ''OverflowError'' ''integer division result too large for a float'')
           else Inr y)"

subsection \<open>Parameter mapping (lines 104 to 133)\<close>

text \<open>
  \<open>days = max(1, int(np.ceil(duration_minutes / (24 * 60))))\<close>. The ceiling of a float64
  and its conversion to \<open>int\<close> are exact.
\<close>

definition days_of :: "int \<Rightarrow> py_exception + int" where
  "days_of duration_minutes =
     (case int_true_divide duration_minutes (24 * 60) of
        Inl e \<Rightarrow> Inl e
      | Inr q \<Rightarrow> Inr (max 1 \<lceil>q\<rceil>))"

text \<open>\<open>if hasattr(args, k): args.k = v\<close>\<close>

definition set_if_present :: "string \<Rightarrow> pyval \<Rightarrow> namespace \<Rightarrow> namespace" where
  "set_if_present k v args = (if hasattr args k then args(k \<mapsto> v) else args)"

text \<open>Lines 106 to 133, with the number of days of line 105.\<close>

definition map_parameters :: "pyval \<Rightarrow> int \<Rightarrow> namespace \<Rightarrow> namespace" where
  "map_parameters carbs_grams days args0 =
     (let args1 = args0(''number_of_days'' \<mapsto> PyInt days);
          args2 = set_if_present ''breakfast_carb_range''
                    (PyList [carbs_grams, carbs_grams]) args1;
          args3 = set_if_present ''running_start_time'' (PyList [PyStr ''00:00'']) args2;
          args4 = set_if_present ''cycling_start_time'' (PyList [PyStr ''00:00'']) args3;
          args5 = set_if_present ''running_duration'' (PyList [PyFloat 0]) args4;
          args6 = set_if_present ''cycling_duration'' (PyList [PyFloat 0]) args5;
          args7 = set_if_present ''running_incline'' (PyList [PyFloat 0]) args6;
          args8 = set_if_present ''running_speed'' (PyList [PyFloat 0]) args7
      in set_if_present ''cycling_power'' (PyList [PyFloat 0]) args8)"

subsection \<open>The engine's result and its post-processing (lines 174 to 224)\<close>

text \<open>
  What the adapter reads of \<open>cohort.singlescale_model\<close>: \<open>states.as_array\<close>
  (subjects, states, samples), \<open>glucose_state\<close>, \<open>states.state_units\<close>,
  \<open>parameters.VG\<close> and \<open>time.as_unix\<close>.
\<close>

record cohort =
  states :: "real list list list"
  glucose_state :: nat
  state_units :: "string list"
  VG :: "real list"
  time_as_unix :: "real list"

record trace_entry =
  time_min :: real
  glucose_mg_dl :: real

record summary =
  status :: string
  min_glucose_mg_dl :: real
  max_glucose_mg_dl :: real
  final_glucose_mg_dl :: real

record result_data =
  summary :: summary
  cgm_trace :: "trace_entry list"

definition index_error :: py_exception where
  "index_error = PyExc ''IndexError'' ''index out of range''"

text \<open>\<open>xs[i]\<close> for an index that is not negative.\<close>

definition py_index :: "'a list \<Rightarrow> nat \<Rightarrow> py_exception + 'a" where
  "py_index xs i = (if i < length xs then Inr (xs ! i) else Inl index_error)"

text \<open>\<open>states[0, glucose_state_idx, :]\<close>\<close>

definition glucose_raw :: "cohort \<Rightarrow> py_exception + real list" where
  "glucose_raw c =
     (case py_index (states c) 0 of
        Inl e \<Rightarrow> Inl e
      | Inr subject0 \<Rightarrow> py_index subject0 (glucose_state c))"

text \<open>
  Lines 183 to 189. The conversion \<open>UnitConversion.glucose.concentration_mmolL_to_mgdL\<close>
  belongs to the engine and is the parameter \<open>to_mgdL\<close>, applied to each sample.
\<close>

definition normalize_glucose ::
  "(real \<Rightarrow> real) \<Rightarrow> cohort \<Rightarrow> py_exception + real list" where
  "normalize_glucose to_mgdL c =
     (case glucose_raw c of
        Inl e \<Rightarrow> Inl e
      | Inr raw \<Rightarrow>
          (case py_index (state_units c) (glucose_state c) of
             Inl e \<Rightarrow> Inl e
           | Inr unit \<Rightarrow>
               if unit = ''mmol/L'' then
                 (case py_index (VG c) 0 of
                    Inl e \<Rightarrow> Inl e
                  | Inr vg0 \<Rightarrow> Inr (map to_mgdL (map (\<lambda>x. x / vg0) raw)))
               else Inr raw))"

text \<open>
  \<open>a[keep]\<close> for a boolean mask: numpy raises IndexError when the lengths differ.
\<close>

definition mask_select :: "'a list \<Rightarrow> bool list \<Rightarrow> py_exception + 'a list" where
  "mask_select xs keep =
     (if length xs = length keep then Inr (map fst (filter snd (zip xs keep)))
      else Inl (PyExc ''IndexError'' ''boolean index did not match indexed array''))"

text \<open>\<open>np.min\<close> and \<open>np.max\<close>: ValueError on an empty array.\<close>

definition np_min :: "real list \<Rightarrow> py_exception + real" where
  "np_min xs =
     (case xs of
        [] \<Rightarrow> Inl (PyExc ''ValueError''
          ''zero-size array to reduction operation minimum which has no identity'')
      | x # rest \<Rightarrow> Inr (fold min rest x))"

definition np_max :: "real list \<Rightarrow> py_exception + real" where
  "np_max xs =
     (case xs of
        [] \<Rightarrow> Inl (PyExc ''ValueError''
          ''zero-size array to reduction operation maximum which has no identity'')
      | x # rest \<Rightarrow> Inr (fold max rest x))"

text \<open>
  \<open>round(x, 1)\<close>: to the nearest multiple of one tenth, a tie going to the even one.
\<close>

definition py_round1 :: "real \<Rightarrow> real" where
  "py_round1 x = real_of_int (round_half_even (x * 10)) / 10"

text \<open>Lines 205 to 209.\<close>

definition classify :: "real \<Rightarrow> real \<Rightarrow> string" where
  "classify min_glucose max_glucose =
     (if min_glucose < 70 then ''Hypoglycemia (Low)''
      else if 180 < max_glucose then ''Hyperglycemia (High)''
      else ''Normal'')"

text \<open>
  Lines 219 to 223: the comprehension over \<open>enumerate(zip(time_points, glucose))\<close>.
  \<open>len(glucose) - 1\<close> is an integer subtraction.
\<close>

definition subsample :: "real list \<Rightarrow> real list \<Rightarrow> trace_entry list" where
  "subsample time_points glucose =
     map (\<lambda>(i, t, g). \<lparr>time_min = t, glucose_mg_dl = py_round1 g\<rparr>)
       (filter (\<lambda>(i, t, g). i mod 15 = 0 \<or> int i = int (length glucose) - 1)
          (enumerate 0 (zip time_points glucose)))"

text \<open>Lines 194 to 224, from the normalised glucose and the time axis.\<close>

definition summarize :: "real list \<Rightarrow> real list \<Rightarrow> int \<Rightarrow> py_exception + result_data" where
  "summarize time_axis glucose_all duration_minutes =
     (let keep = map (\<lambda>t. t \<le> real_of_int duration_minutes) time_axis
      in case mask_select time_axis keep of
           Inl e \<Rightarrow> Inl e
         | Inr time_points \<Rightarrow>
             (case mask_select glucose_all keep of
                Inl e \<Rightarrow> Inl e
              | Inr glucose \<Rightarrow>
                  (case np_min glucose of
                     Inl e \<Rightarrow> Inl e
                   | Inr min_glucose \<Rightarrow>
                       (case np_max glucose of
                          Inl e \<Rightarrow> Inl e
                        | Inr max_glucose \<Rightarrow>
                            Inr \<lparr>summary =
                                   \<lparr>status = classify min_glucose max_glucose,
                                    min_glucose_mg_dl = py_round1 min_glucose,
                                    max_glucose_mg_dl = py_round1 max_glucose,
                                    final_glucose_mg_dl = py_round1 (last glucose)\<rparr>,
                                 cgm_trace = subsample time_points glucose\<rparr>))))"

text \<open>Lines 174 to 224 together.\<close>

definition postprocess ::
  "(real \<Rightarrow> real) \<Rightarrow> cohort \<Rightarrow> int \<Rightarrow> py_exception + result_data" where
  "postprocess to_mgdL c duration_minutes =
     (case normalize_glucose to_mgdL c of
        Inl e \<Rightarrow> Inl e
      | Inr glucose_all \<Rightarrow> summarize (time_as_unix c) glucose_all duration_minutes)"

subsection \<open>The process, the log and the engine\<close>

text \<open>
  Of the operating system the model keeps the working directory; \<open>world\<close> is the rest
  (the file system, the random generator, the engine's own module state). \<open>os.getcwd\<close>
  reads \<open>cwd\<close> and \<open>os.chdir\<close> assigns it.
\<close>

record 'w os_state =
  cwd :: string
  world :: 'w

text \<open>The records the adapter's logger receives, with the arguments of each call.\<close>

datatype log_entry =
    LogInfo string
  | LogStart pyval real real int
  | LogException string py_exception

text \<open>The module's state: the flag \<open>_initialized\<close>, the log and the process.\<close>

record 'w server =
  initialized :: bool
  logs :: "log_entry list"
  os :: "'w os_state"

type_synonym ('a, 'w) action = "'w os_state \<Rightarrow> (py_exception + 'a) \<times> 'w os_state"

text \<open>
  The entry points of py_mgipsim the adapter calls. \<open>BASE_DIR\<close> is the directory of the
  module's file. \<open>initialization\<close> is the body of the module of that name, run by its
  import. \<open>parse_default_args\<close> is \<open>generate_parser_cli().parse_args([])\<close>, and
  \<open>create_simulation_results_folder\<close> returns the fourth component of the tuple, the
  only one the adapter keeps. \<open>'s\<close> is the type of a scenario.
\<close>

record ('w, 's) engine =
  BASE_DIR :: string
  initialization :: "'w os_state \<Rightarrow> py_exception option \<times> 'w os_state"
  parse_default_args :: "(namespace, 'w) action"
  create_simulation_results_folder :: "(string, 'w) action"
  load_settings_file :: "namespace \<Rightarrow> string \<Rightarrow> ('s, 'w) action"
  generate_simulation_settings_main :: "'s \<Rightarrow> namespace \<Rightarrow> string \<Rightarrow> ('s, 'w) action"
  generate_virtual_subjects_main :: "'s \<Rightarrow> namespace \<Rightarrow> string \<Rightarrow> ('s, 'w) action"
  activity_args_to_scenario :: "'s \<Rightarrow> namespace \<Rightarrow> ('s, 'w) action"
  generate_inputs_main :: "'s \<Rightarrow> namespace \<Rightarrow> string \<Rightarrow> ('s, 'w) action"
  generate_results_main :: "'s \<Rightarrow> namespace \<Rightarrow> string \<Rightarrow> (cohort, 'w) action"
  concentration_mmolL_to_mgdL :: "real \<Rightarrow> real"

text \<open>Sequencing: the first raise ends the computation, with the process as it then is.\<close>

definition bind_action :: "('a, 'w) action \<Rightarrow> ('a \<Rightarrow> ('b, 'w) action) \<Rightarrow> ('b, 'w) action" where
  "bind_action m f =
     (\<lambda>w. case m w of (Inl e, w') \<Rightarrow> (Inl e, w') | (Inr a, w') \<Rightarrow> f a w')"

definition pure_action :: "py_exception + 'a \<Rightarrow> ('a, 'w) action" where
  "pure_action r = (\<lambda>w. (r, w))"

subsection \<open>The initialization guard (lines 44 to 65)\<close>

text \<open>\<open>os.path.join\<close> of a directory and a relative name, on POSIX.\<close>

definition path_join :: "string \<Rightarrow> string \<Rightarrow> string" where
  "path_join dir name =
     (if dir = [] then name
      else if last dir = CHR ''/'' then dir @ name
      else dir @ ''/'' @ name)"

definition PY_MGIPSIM_DIR :: "('w, 's) engine \<Rightarrow> string" where
  "PY_MGIPSIM_DIR E = path_join (BASE_DIR E) ''py_mgipsim''"

text \<open>
  The result is \<open>None\<close> when the function returns and \<open>Some e\<close> when it raises \<open>e\<close>.
  The \<open>finally\<close> clause runs on both paths out of the \<open>try\<close> block.
\<close>

definition ensure_pymgipsim_initialized ::
  "('w, 's) engine \<Rightarrow> 'w server \<Rightarrow> py_exception option \<times> 'w server" where
  "ensure_pymgipsim_initialized E s =
     (if initialized s then (None, s)
      else
        let s1 = s\<lparr>logs := logs s @ [LogInfo ''Initializing py_mgipsim environment...'']\<rparr>;
            old_cwd = cwd (os s1);
            (raised, os_after) = initialization E ((os s1)\<lparr>cwd := PY_MGIPSIM_DIR E\<rparr>);
            s2 = s1\<lparr>os := os_after\<lparr>cwd := old_cwd\<rparr>\<rparr>
        in case raised of
             Some e \<Rightarrow> (Some e, s2)
           | None \<Rightarrow>
               (None, s2\<lparr>initialized := True,
                         logs := logs s2 @ [LogInfo ''py_mgipsim initialized.'']\<rparr>))"

subsection \<open>The tool (lines 68 to 230)\<close>

text \<open>Lines 139 to 165: the stages that prepare the scenario.\<close>

definition prepare_scenario ::
  "('w, 's) engine \<Rightarrow> namespace \<Rightarrow> string \<Rightarrow> ('s, 'w) action" where
  "prepare_scenario E args results_folder_path =
     bind_action (load_settings_file E args results_folder_path) (\<lambda>settings_file.
     bind_action (pure_action (getattr args ''scenario_name'')) (\<lambda>scenario_name.
       if \<not> py_truthy scenario_name then
         bind_action
           (generate_simulation_settings_main E settings_file args results_folder_path)
           (\<lambda>settings1.
         bind_action (generate_virtual_subjects_main E settings1 args results_folder_path)
           (\<lambda>settings2.
         bind_action (activity_args_to_scenario E settings2 args) (\<lambda>settings3.
           generate_inputs_main E settings3 args results_folder_path)))
       else pure_action (Inr settings_file)))"

text \<open>Lines 99 to 172: from the default arguments to the cohort.\<close>

definition run_engine :: "('w, 's) engine \<Rightarrow> pyval \<Rightarrow> int \<Rightarrow> (cohort, 'w) action" where
  "run_engine E carbs_grams duration_minutes =
     bind_action (parse_default_args E) (\<lambda>args0.
     bind_action (pure_action (days_of duration_minutes)) (\<lambda>days.
       let args = map_parameters carbs_grams days args0
       in bind_action (create_simulation_results_folder E) (\<lambda>results_folder_path.
          bind_action (prepare_scenario E args results_folder_path) (\<lambda>settings_file.
            generate_results_main E settings_file args results_folder_path))))"

text \<open>The body of the \<open>try\<close> block.\<close>

definition try_body ::
  "('w, 's) engine \<Rightarrow> pyval \<Rightarrow> real \<Rightarrow> real \<Rightarrow> int \<Rightarrow> 'w server
     \<Rightarrow> (py_exception + result_data) \<times> 'w server" where
  "try_body E carbs_grams insulin_bolus body_weight duration_minutes s =
     (let s0 = s\<lparr>logs := logs s @
                  [LogStart carbs_grams insulin_bolus body_weight duration_minutes]\<rparr>;
          (raised, s1) = ensure_pymgipsim_initialized E s0
      in case raised of
           Some e \<Rightarrow> (Inl e, s1)
         | None \<Rightarrow>
             (let (r, os2) = run_engine E carbs_grams duration_minutes (os s1);
                  s2 = s1\<lparr>os := os2\<rparr>
              in case r of
                   Inl e \<Rightarrow> (Inl e, s2)
                 | Inr c \<Rightarrow>
                     (postprocess (concentration_mmolL_to_mgdL E) c duration_minutes, s2)))"

text \<open>
  What the tool returns, a Python \<open>str\<close> in both cases: \<open>Json r\<close> is the text
  \<open>json.dumps(r)\<close> and \<open>Text t\<close> is the text \<open>t\<close>.
\<close>

datatype tool_return = Json result_data | Text string

text \<open>
  Lines 228 to 230: the clause \<open>except Exception as e\<close>. An exception that is not an
  instance of \<open>Exception\<close> is not caught and leaves the function.
\<close>

definition on_exception :: "py_exception \<Rightarrow> py_exception + tool_return" where
  "on_exception e =
     (if is_Exception e then Inr (Text (''Error executing simulation: '' @ exc_msg e))
      else Inl e)"

text \<open>The tool: \<open>Inr\<close> of the text it returns, \<open>Inl\<close> of the exception it raises.\<close>

definition simulate_glucose_dynamics ::
  "('w, 's) engine \<Rightarrow> pyval \<Rightarrow> real \<Rightarrow> real \<Rightarrow> int \<Rightarrow> 'w server
     \<Rightarrow> (py_exception + tool_return) \<times> 'w server" where
  "simulate_glucose_dynamics E carbs_grams insulin_bolus body_weight duration_minutes s =
     (case try_body E carbs_grams insulin_bolus body_weight duration_minutes s of
        (Inr result, s') \<Rightarrow> (Inr (Json result), s')
      | (Inl e, s') \<Rightarrow>
          (on_exception e,
           if is_Exception e
           then s'\<lparr>logs := logs s' @ [LogException ''Simulation failed'' e]\<rparr>
           else s'))"

subsection \<open>The index set of the subsampled trace\<close>

text \<open>
  The positions the specification names for a sequence of length \<open>L\<close>: the multiples of
  15 below \<open>L\<close> and \<open>L - 1\<close>, in ascending order.
\<close>

definition kept_indices :: "nat \<Rightarrow> nat list" where
  "kept_indices L = filter (\<lambda>i. i mod 15 = 0 \<or> i = L - 1) [0..<L]"

text \<open>The entries of a time axis and a glucose sequence whose time is at most the bound.\<close>

definition truncated :: "real list \<Rightarrow> real list \<Rightarrow> int \<Rightarrow> (real \<times> real) list" where
  "truncated time_axis glucose_all duration_minutes =
     filter (\<lambda>(t, g). t \<le> real_of_int duration_minutes) (zip time_axis glucose_all)"

subsection \<open>Concrete engines and inputs\<close>

text \<open>
  A small engine to run the tool on: its world counts the results folders created, a
  scenario is the list of the stages that produced it, and the cohort is fixed. Its
  initialization leaves the process in another directory.
\<close>

definition demo_defaults :: namespace where
  "demo_defaults =
     [''scenario_name'' \<mapsto> PyNone,
      ''number_of_days'' \<mapsto> PyInt 1,
      ''breakfast_carb_range'' \<mapsto> PyList [PyFloat 80, PyFloat 120],
      ''running_start_time'' \<mapsto> PyList []]"

definition demo_cohort :: cohort where
  "demo_cohort =
     \<lparr>states = [[[10, 12, 14, 12, 10], [110, 150, 190, 160, 120]]],
      glucose_state = 1,
      state_units = [''mU/L'', ''mg/dL''],
      VG = [12],
      time_as_unix = [0, 60, 120, 180, 240]\<rparr>"

definition molar_cohort :: cohort where
  "molar_cohort =
     \<lparr>states = [[[60, 120, 90]]],
      glucose_state = 0,
      state_units = [''mmol/L''],
      VG = [12],
      time_as_unix = [0, 1, 2]\<rparr>"

definition demo_engine :: "(nat, string list) engine" where
  "demo_engine =
     \<lparr>BASE_DIR = ''/srv/app'',
      initialization = (\<lambda>w. (None, w\<lparr>cwd := ''/srv/app/py_mgipsim/Settings''\<rparr>)),
      parse_default_args = (\<lambda>w. (Inr demo_defaults, w)),
      create_simulation_results_folder =
        (\<lambda>w. (Inr ''SimulationResults/run'', w\<lparr>world := Suc (world w)\<rparr>)),
      load_settings_file = (\<lambda>args path w. (Inr [], w)),
      generate_simulation_settings_main =
        (\<lambda>scenario args path w. (Inr (scenario @ [''settings'']), w)),
      generate_virtual_subjects_main =
        (\<lambda>scenario args path w. (Inr (scenario @ [''subjects'']), w)),
      activity_args_to_scenario = (\<lambda>scenario args w. (Inr (scenario @ [''activity'']), w)),
      generate_inputs_main = (\<lambda>scenario args path w. (Inr (scenario @ [''inputs'']), w)),
      generate_results_main = (\<lambda>scenario args path w. (Inr demo_cohort, w)),
      concentration_mmolL_to_mgdL = (\<lambda>x. 18 * x)\<rparr>"



text \<open>An engine whose initialization raises after it has changed directory.\<close>

definition broken_engine :: "(nat, string list) engine" where
  "broken_engine =
     demo_engine\<lparr>initialization :=
       (\<lambda>w. (Some (PyExc ''OSError'' ''cannot create the results folder''),
              w\<lparr>cwd := ''/tmp''\<rparr>))\<rparr>"


definition demo_server :: "nat server" where
  "demo_server = \<lparr>initialized = False, logs = [], os = \<lparr>cwd = ''/home/user'', world = 0\<rparr>\<rparr>"

text \<open>What the tool returns on \<open>demo_engine\<close> for a duration of 120 minutes.\<close>

definition demo_result :: result_data where
  "demo_result =
     \<lparr>summary =
        \<lparr>status = ''Hyperglycemia (High)'',
         min_glucose_mg_dl = 110,
         max_glucose_mg_dl = 190,
         final_glucose_mg_dl = 190\<rparr>,
      cgm_trace =
        [\<lparr>time_min = 0, glucose_mg_dl = 110\<rparr>,
         \<lparr>time_min = 120, glucose_mg_dl = 190\<rparr>]\<rparr>"

text \<open>
  A time axis of one sample a minute and a glucose sequence over it. Up to minute 16 the
  lowest value is at position 3 and the highest at position 7; the two samples after
  minute 16 are lower and higher still.
\<close>

definition sample_times :: "real list" where
  "sample_times = [0, 1, 2, 3, 4, 5, 6, 7, 8, 9, 10, 11, 12, 13, 14, 15, 16, 17, 18]"

definition sample_glucose :: "real list" where
  "sample_glucose =
     [100, 104, 98, 62.46875, 90, 120, 150, 231.25, 200, 170,
      150, 140, 130, 125, 120, 118.03125, 115.5625, 300, 40]"

definition sample_result :: result_data where
  "sample_result =
     \<lparr>summary =
        \<lparr>status = ''Hypoglycemia (Low)'',
         min_glucose_mg_dl = 62.5,
         max_glucose_mg_dl = 231.2,
         final_glucose_mg_dl = 115.6\<rparr>,
      cgm_trace =
        [\<lparr>time_min = 0, glucose_mg_dl = 100\<rparr>,
         \<lparr>time_min = 15, glucose_mg_dl = 118\<rparr>,
         \<lparr>time_min = 16, glucose_mg_dl = 115.6\<rparr>]\<rparr>"

section \<open>Supporting lemmas\<close>

lemma set_if_present_other: "k' \<noteq> k \<Longrightarrow> set_if_present k v a k' = a k'"
  by (simp add: set_if_present_def)


lemma number_of_days_set:
  "map_parameters carbs days defaults ''number_of_days'' = Some (PyInt days)"
  by (simp add: map_parameters_def Let_def set_if_present_other)



subsection \<open>Truncation, extrema and subsampling\<close>

lemma fold_min_Min: "fold min xs (x::real) = Min (set (x # xs))"
  by (simp only: Min.set_eq_fold)

lemma fold_max_Max: "fold max xs (x::real) = Max (set (x # xs))"
  by (simp only: Max.set_eq_fold)

lemma np_min_nonempty: "xs \<noteq> [] \<Longrightarrow> np_min xs = Inr (Min (set xs))"
  by (cases xs) (simp_all add: np_min_def fold_min_Min del: set_simps)

lemma np_max_nonempty: "xs \<noteq> [] \<Longrightarrow> np_max xs = Inr (Max (set xs))"
  by (cases xs) (simp_all add: np_max_def fold_max_Max del: set_simps)

lemma mask_select_time:
  "length ts = length gs \<Longrightarrow>
   mask_select ts (map (\<lambda>t. t \<le> real_of_int d) ts) = Inr (map fst (truncated ts gs d))"
  unfolding mask_select_def truncated_def
  by (induction ts gs rule: list_induct2) auto

lemma mask_select_glucose:
  "length ts = length gs \<Longrightarrow>
   mask_select gs (map (\<lambda>t. t \<le> real_of_int d) ts) = Inr (map snd (truncated ts gs d))"
  unfolding mask_select_def truncated_def
  by (induction ts gs rule: list_induct2) auto

lemma summarize_unequal:
  "length ts \<noteq> length gs \<Longrightarrow>
   summarize ts gs d = Inl (PyExc ''IndexError'' ''boolean index did not match indexed array'')"
  by (simp add: summarize_def Let_def mask_select_def)

lemma summarize_empty:
  assumes "length ts = length gs" and "truncated ts gs d = []"
  shows "summarize ts gs d = Inl (PyExc ''ValueError''
          ''zero-size array to reduction operation minimum which has no identity'')"
  using assms
  by (simp add: summarize_def Let_def mask_select_time mask_select_glucose np_min_def)

lemma summarize_nonempty:
  assumes "length ts = length gs" and "truncated ts gs d \<noteq> []"
  shows "summarize ts gs d =
     Inr \<lparr>summary =
            \<lparr>status = classify (Min (set (map snd (truncated ts gs d))))
                         (Max (set (map snd (truncated ts gs d)))),
             min_glucose_mg_dl = py_round1 (Min (set (map snd (truncated ts gs d)))),
             max_glucose_mg_dl = py_round1 (Max (set (map snd (truncated ts gs d)))),
             final_glucose_mg_dl = py_round1 (last (map snd (truncated ts gs d)))\<rparr>,
          cgm_trace = subsample (map fst (truncated ts gs d)) (map snd (truncated ts gs d))\<rparr>"
proof -
  have ne: "map snd (truncated ts gs d) \<noteq> []" using assms(2) by simp
  show ?thesis
    by (simp add: summarize_def Let_def mask_select_time [OF assms(1)]
        mask_select_glucose [OF assms(1)] np_min_nonempty [OF ne] np_max_nonempty [OF ne]
        del: set_map)
qed

lemma summarize_Inr_iff:
  "summarize ts gs d = Inr r \<Longrightarrow> length ts = length gs \<and> truncated ts gs d \<noteq> []"
  by (metis summarize_unequal summarize_empty sum.distinct(1))

lemma enumerate_as_map: "enumerate n xs = map (\<lambda>i. (n + i, xs ! i)) [0..<length xs]"
  by (rule nth_equalityI) (simp_all add: nth_enumerate_eq)

lemma subsample_indices:
  assumes "length tps = length gl"
  shows "subsample tps gl =
     map (\<lambda>i. \<lparr>time_min = tps ! i, glucose_mg_dl = py_round1 (gl ! i)\<rparr>)
       (kept_indices (length gl))"
proof -
  have last_index: "(int i = int (length gl) - 1) = (i = length gl - 1)"
    if "i \<in> set [0..<length gl]" for i
    using that by auto
  have "filter (\<lambda>i. i mod 15 = 0 \<or> int i = int (length gl) - 1) [0..<length gl]
        = kept_indices (length gl)"
    unfolding kept_indices_def by (rule filter_cong) (simp_all add: last_index)
  moreover have "subsample tps gl =
     map (\<lambda>i. \<lparr>time_min = tps ! i, glucose_mg_dl = py_round1 (gl ! i)\<rparr>)
       (filter (\<lambda>i. i mod 15 = 0 \<or> int i = int (length gl) - 1) [0..<length gl])"
    using assms
    by (simp add: subsample_def enumerate_as_map filter_map comp_def case_prod_unfold)
  ultimately show ?thesis by simp
qed

lemma set_kept_indices:
  "0 < L \<Longrightarrow> set (kept_indices L) = {i. i < L \<and> i mod 15 = 0} \<union> {L - 1}"
  by (auto simp: kept_indices_def)

lemma sorted_kept_indices: "sorted_wrt (<) (kept_indices L)"
  unfolding kept_indices_def by (rule sorted_wrt_filter) simp

lemma py_round1_tenth: "\<exists>k::int. py_round1 x = real_of_int k / 10"
  by (auto simp: py_round1_def)

lemma round_half_even_close: "\<bar>real_of_int (round_half_even y) - y\<bar> \<le> 1 / 2"
  unfolding round_half_even_def Let_def by (auto simp: abs_le_iff)

lemma py_round1_close: "\<bar>py_round1 x - x\<bar> \<le> 1 / 20"
  using round_half_even_close [of "x * 10"] unfolding py_round1_def
  by (simp add: abs_le_iff field_simps)

lemma subsample_times:
  "length tps = length gl \<Longrightarrow>
   map time_min (subsample tps gl) = map ((!) tps) (kept_indices (length gl))"
  by (simp add: subsample_indices comp_def)

lemma subsample_time_set:
  assumes "length tps = length gl"
  shows "time_min ` set (subsample tps gl) \<subseteq> set tps"
proof -
  have "set (map time_min (subsample tps gl)) \<subseteq> set tps"
    unfolding subsample_times [OF assms] using assms
    by (auto simp: kept_indices_def)
  then show ?thesis by simp
qed

lemma nth_sorted_indices:
  assumes "sorted_wrt (<) xs" and "sorted_wrt (<) is" and "\<forall>i \<in> set is. i < length xs"
  shows "sorted_wrt (<) (map ((!) xs) is)"
proof -
  have "sorted_wrt (\<lambda>i j. xs ! i < xs ! j) is"
    using assms(2)
  proof (rule sorted_wrt_mono_rel [rotated])
    fix i j assume "i \<in> set is" "j \<in> set is" "i < j"
    then show "xs ! i < xs ! j"
      using assms(1,3) by (simp add: sorted_wrt_iff_nth_less)
  qed
  then show ?thesis by (simp add: sorted_wrt_map)
qed

subsection \<open>The sample sequence\<close>

lemma sample_truncated:
  "truncated sample_times sample_glucose 16 =
     [(0, 100), (1, 104), (2, 98), (3, 62.46875), (4, 90), (5, 120), (6, 150), (7, 231.25),
      (8, 200), (9, 170), (10, 150), (11, 140), (12, 130), (13, 125), (14, 120),
      (15, 118.03125), (16, 115.5625)]"
  by (simp add: truncated_def sample_times_def sample_glucose_def)

lemma sample_summary: "summarize sample_times sample_glucose 16 = Inr sample_result"
  by (simp add: summarize_def mask_select_def np_min_def np_max_def classify_def
      subsample_def py_round1_def round_half_even_def Let_def sample_times_def
      sample_glucose_def sample_result_def)

lemma kept_indices_17: "kept_indices 17 = [0, 15, 16]"
  by code_simp

lemma kept_indices_16: "kept_indices 16 = [0, 15]"
  by code_simp

subsection \<open>The float64 quotient\<close>

lemma pow2_powr: "pow2 k = 2 powr (real_of_int k)"
proof (cases "0 \<le> k")
  case True
  then have "real (nat k) = real_of_int k" by simp
  then show ?thesis using True by (simp add: pow2_def powr_realpow [symmetric])
next
  case False
  then have neg: "real (nat (- k)) = - real_of_int k" by simp
  have "(2::real) ^ nat (- k) = 2 powr real (nat (- k))"
    by (simp add: powr_realpow)
  also have "\<dots> = 2 powr (- real_of_int k)" by (simp only: neg)
  finally have "1 / (2::real) ^ nat (- k) = 2 powr (real_of_int k)"
    by (simp add: powr_minus_divide)
  then show ?thesis using False by (simp add: pow2_def)
qed

lemma pow2_pos: "0 < pow2 k"
  by (simp add: pow2_powr)

lemma pow2_mono: "pow2 j \<le> pow2 k \<longleftrightarrow> j \<le> k"
  by (simp add: pow2_powr)

lemma pow2_nat: "pow2 (int n) = 2 ^ n"
  by (simp add: pow2_def)

lemma pow2_add: "pow2 (j + k) = pow2 j * pow2 k"
  by (simp add: pow2_powr powr_add)

lemma bitlen_powr:
  assumes "0 < a"
  shows "2 powr (real_of_int (bitlen a - 1)) \<le> real_of_int a"
    and "real_of_int a < 2 powr (real_of_int (bitlen a))"
proof -
  from assms have pos: "1 \<le> bitlen a" by (auto simp: bitlen_alt_def)
  from bitlen_bounds [OF assms]
  have lo: "2 ^ nat (bitlen a - 1) \<le> a" and hi: "a < 2 ^ nat (bitlen a)" by auto
  have "pow2 (bitlen a - 1) = real_of_int (2 ^ nat (bitlen a - 1))"
    using pos by (simp add: pow2_def)
  also have "\<dots> \<le> real_of_int a" using lo by linarith
  finally show "2 powr (real_of_int (bitlen a - 1)) \<le> real_of_int a"
    by (simp add: pow2_powr)
  have "real_of_int a < real_of_int (2 ^ nat (bitlen a))" using hi by linarith
  also have "\<dots> = pow2 (bitlen a)" using pos by (simp add: pow2_def)
  finally show "real_of_int a < 2 powr (real_of_int (bitlen a))"
    by (simp add: pow2_powr)
qed

lemma quotient_exponent_le:
  assumes "0 < a" and "0 < b"
  shows "pow2 (quotient_exponent a b) \<le> real_of_int a / real_of_int b"
proof (cases "real_of_int b * pow2 (bitlen a - bitlen b) \<le> real_of_int a")
  case True
  then have "pow2 (bitlen a - bitlen b) \<le> real_of_int a / real_of_int b"
    using assms(2) by (simp add: field_simps)
  with True show ?thesis by (simp add: quotient_exponent_def)
next
  case False
  have "pow2 (bitlen a - bitlen b - 1)
      = 2 powr (real_of_int (bitlen a - 1)) / 2 powr (real_of_int (bitlen b))"
  proof -
    have "real_of_int (bitlen a - bitlen b - 1)
        = real_of_int (bitlen a - 1) - real_of_int (bitlen b)" by simp
    then show ?thesis unfolding pow2_powr by (simp only: powr_diff)
  qed
  also have "\<dots> \<le> real_of_int a / 2 powr (real_of_int (bitlen b))"
    using bitlen_powr(1) [OF assms(1)] by (simp add: divide_right_mono)
  also have "\<dots> \<le> real_of_int a / real_of_int b"
    using bitlen_powr(2) [OF assms(2)] assms by (simp add: frac_le)
  finally show ?thesis using False by (simp add: quotient_exponent_def)
qed

lemma round_half_even_int: "round_half_even (real_of_int n) = n"
  by (simp add: round_half_even_def)

lemma float64_round_close:
  "\<bar>float64_round e x - x\<bar> \<le> pow2 (max (- 1022) e - 52) / 2"
proof -
  define ulp where "ulp = pow2 (max (- 1022) e - 52)"
  have pos: "0 < ulp" by (simp add: ulp_def pow2_pos)
  have "\<bar>real_of_int (round_half_even (x / ulp)) - x / ulp\<bar> \<le> 1 / 2"
    by (rule round_half_even_close)
  then have "\<bar>real_of_int (round_half_even (x / ulp)) - x / ulp\<bar> * ulp \<le> 1 / 2 * ulp"
    using pos by (simp add: mult_right_mono)
  moreover have "\<bar>real_of_int (round_half_even (x / ulp)) - x / ulp\<bar> * ulp
      = \<bar>real_of_int (round_half_even (x / ulp)) * ulp - x\<bar>"
  proof -
    have "\<bar>real_of_int (round_half_even (x / ulp)) - x / ulp\<bar> * ulp
        = \<bar>(real_of_int (round_half_even (x / ulp)) - x / ulp) * ulp\<bar>"
      using pos by (simp add: abs_mult)
    also have "(real_of_int (round_half_even (x / ulp)) - x / ulp) * ulp
        = real_of_int (round_half_even (x / ulp)) * ulp - x"
      using pos by (simp add: left_diff_distrib)
    finally show ?thesis .
  qed
  ultimately show ?thesis
    by (simp add: float64_round_def Let_def ulp_def [symmetric])
qed

lemma float64_round_int:
  assumes "e \<le> 52"
  shows "float64_round e (real_of_int n) = real_of_int n"
proof -
  define m where "m = 52 - max (- 1022) e"
  have m: "0 \<le> m" using assms by (simp add: m_def)
  have ulp: "pow2 (max (- 1022) e - 52) = 1 / 2 ^ nat m"
  proof -
    have "pow2 (max (- 1022) e - 52) * pow2 m = pow2 0"
      unfolding pow2_add [symmetric] by (simp add: m_def)
    moreover have "pow2 m = 2 ^ nat m" using m by (simp add: pow2_def)
    ultimately show ?thesis by (simp add: pow2_def field_simps)
  qed
  have "real_of_int n / (1 / 2 ^ nat m) = real_of_int (n * 2 ^ nat m)" by simp
  then have "round_half_even (real_of_int n / (1 / 2 ^ nat m)) = n * 2 ^ nat m"
    by (simp only: round_half_even_int)
  then show ?thesis
    by (simp add: float64_round_def Let_def ulp)
qed

lemma float64_quotient_ceiling:
  assumes "0 < d" and "d \<le> 1440 * 2 ^ 43"
  defines "y \<equiv> float64_round (quotient_exponent d 1440) (real_of_int d / 1440)"
  shows "\<lceil>y\<rceil> = \<lceil>real_of_int d / 1440\<rceil>" and "\<bar>y\<bar> < 2 ^ 1024"
proof -
  define x where "x = real_of_int d / 1440"
  define e where "e = quotient_exponent d 1440"
  define k where "k = d div 1440"
  define j where "j = d mod 1440"
  have d: "d = 1440 * k + j" and j: "0 \<le> j" "j < 1440"
    by (simp_all add: k_def j_def)
  have p43: "(2::int) ^ 43 = 8796093022208" by simp
  have k: "0 \<le> k" "k \<le> 2 ^ 43"
    using assms(1,2) d j unfolding p43 by linarith+
  have x: "x = real_of_int k + real_of_int j / 1440"
    by (simp add: x_def d)
  have xpos: "0 < x" using assms(1) by (simp add: x_def)
  have low: "pow2 e \<le> x"
    using quotient_exponent_le [of d 1440] assms(1) by (simp add: e_def x_def)
  have ybound: "\<bar>y\<bar> < 2 ^ 1024 \<and> \<lceil>y\<rceil> = \<lceil>x\<rceil>"
  proof (cases "j = 0")
    case True
    then have xk: "x = real_of_int k" by (simp add: x)
    have "x \<le> pow2 43" using k(2) xk by (simp add: pow2_def)
    with low have "pow2 e \<le> pow2 43" by linarith
    then have "e \<le> 52" by (simp add: pow2_mono)
    then have "y = real_of_int k"
      unfolding y_def e_def [symmetric] x_def [symmetric] xk by (rule float64_round_int)
    moreover have "real_of_int k < 2 ^ 1024"
    proof -
      have "real_of_int k \<le> 2 ^ 43" using k(2) by (metis of_int_le_iff of_int_numeral of_int_power)
      also have "\<dots> < (2::real) ^ 1024" by simp
      finally show ?thesis .
    qed
    ultimately show ?thesis using k(1) xk by simp
  next
    case False
    with j have j1: "1 \<le> j" "j \<le> 1439" by simp_all
    have "k < 2 ^ 43"
    proof (rule ccontr)
      assume "\<not> k < 2 ^ 43"
      with k(2) have "k = 2 ^ 43" by simp
      with d j1(1) assms(2) show False by simp
    qed
    then have k1: "k + 1 \<le> 2 ^ 43" by simp
    have "x < real_of_int (k + 1)" using j1(2) by (simp add: x)
    also have "\<dots> \<le> real_of_int (2 ^ 43)" using k1 by (simp only: of_int_le_iff)
    finally have "x < pow2 43" by (simp add: pow2_def)
    with low have "pow2 e < pow2 43" by linarith
    then have "\<not> 43 \<le> e" by (simp add: pow2_mono [symmetric])
    then have "max (- 1022) e - 52 \<le> - 10" by simp
    then have "pow2 (max (- 1022) e - 52) \<le> pow2 (- 10)" by (simp only: pow2_mono)
    then have ulp: "pow2 (max (- 1022) e - 52) / 2 \<le> 1 / 2048" by (simp add: pow2_def)
    have "\<bar>y - x\<bar> \<le> pow2 (max (- 1022) e - 52) / 2"
      unfolding y_def e_def [symmetric] x_def [symmetric] by (rule float64_round_close)
    with ulp have close: "\<bar>y - x\<bar> \<le> 1 / 2048" by linarith
    have above: "real_of_int k + 1 / 1440 \<le> x" using j1(1) by (simp add: x)
    have below: "x \<le> real_of_int k + 1439 / 1440" using j1(2) by (simp add: x)
    from close above below have y: "real_of_int k < y" "y < real_of_int k + 1" by linarith+
    then have cy: "\<lceil>y\<rceil> = k + 1" by (simp add: ceiling_unique)
    from above below have cx: "\<lceil>x\<rceil> = k + 1" by (intro ceiling_unique) simp_all
    have "y < real_of_int (k + 1)" using y(2) by simp
    also have "\<dots> \<le> real_of_int (2 ^ 43)" using k1 by (simp only: of_int_le_iff)
    also have "\<dots> < 2 ^ 1024" by simp
    finally have "y < 2 ^ 1024" .
    moreover have "0 < y" using y(1) k(1) by linarith
    ultimately show ?thesis using cy cx by simp
  qed
  then show "\<lceil>y\<rceil> = \<lceil>real_of_int d / 1440\<rceil>" and "\<bar>y\<bar> < 2 ^ 1024"
    by (simp_all add: x_def)
qed

lemma days_of_exact:
  assumes "0 < d" and "d \<le> 1440 * 2 ^ 43"
  shows "days_of d = Inr (max 1 \<lceil>real_of_int d / 1440\<rceil>)"
  using assms float64_quotient_ceiling [OF assms]
  by (simp add: days_of_def int_true_divide_def Let_def)

lemma ceiling_days: "\<lceil>real_of_int d / 1440\<rceil> = - ((- d) div 1440)"
proof -
  have "real_of_int d / 1440 = of_int d / of_int 1440" by simp
  then show ?thesis by (simp only: ceiling_divide_eq_div)
qed

lemma bitlen_1440: "bitlen 1440 = 11"
  by (simp add: compute_bitlen)

lemma bitlen_big: "bitlen 12666373951979521 = 54"
  by (simp add: compute_bitlen)

lemma days_of_big: "days_of 12666373951979521 = Inr 8796093022208"
  by (simp add: days_of_def int_true_divide_def float64_round_def quotient_exponent_def
      pow2_def round_half_even_def Let_def bitlen_1440 bitlen_big)

lemma exact_big: "max 1 \<lceil>real_of_int 12666373951979521 / 1440\<rceil> = 8796093022209"
  by simp

text \<open>Beyond the float64 range the division raises, and so does the day count.\<close>

lemma days_of_overflow:
  assumes "1440 * 2 ^ 1025 \<le> d"
  shows "days_of d
     = Inl (PyExc ''OverflowError'' ''integer division result too large for a float'')"
proof -
  define x where "x = real_of_int d / 1440"
  define e where "e = quotient_exponent d 1440"
  define ulp where "ulp = pow2 (max (- 1022) e - 52)"
  define y where "y = float64_round e x"
  have "real_of_int (1440 * 2 ^ 1025) \<le> real_of_int d"
    using assms by (simp only: of_int_le_iff)
  then have big: "2 ^ 1025 \<le> x" by (simp add: x_def)
  then have one: "1 \<le> x" by (rule order_trans [rotated]) simp
  have dpos: "0 < d" using one by (simp add: x_def)
  have low: "pow2 e \<le> x"
    using quotient_exponent_le [of d 1440] dpos by (simp add: e_def x_def)
  define h where "h = x / 2 ^ 52"
  have "h * 4503599627370496 = x" by (simp add: h_def)
  with one have small: "h \<le> x" "0 \<le> h" by linarith+
  have "ulp \<le> h"
  proof (cases "- 1022 \<le> e")
    case True
    then have "ulp = pow2 e * pow2 (- 52)"
      by (simp add: ulp_def pow2_add [symmetric] max_def)
    also have "\<dots> \<le> x * pow2 (- 52)"
      using low by (simp add: mult_right_mono pow2_pos less_imp_le)
    finally show ?thesis by (simp add: pow2_def h_def)
  next
    case False
    then have "ulp = pow2 (- 1074)" by (simp add: ulp_def max_def)
    also have "\<dots> \<le> pow2 (- 52)" by (simp only: pow2_mono)
    also have "\<dots> \<le> x * pow2 (- 52)" using one by (simp add: pow2_def)
    finally show ?thesis by (simp add: pow2_def h_def)
  qed
  moreover have "\<bar>y - x\<bar> \<le> ulp / 2"
    unfolding y_def ulp_def by (rule float64_round_close)
  ultimately have "x - h / 2 \<le> y" by linarith
  with small have "x / 2 \<le> y" by linarith
  moreover have "(2::real) ^ 1024 \<le> x / 2" using big by simp
  ultimately have "2 ^ 1024 \<le> y" by linarith
  then have "2 ^ 1024 \<le> \<bar>y\<bar>" by linarith
  then show ?thesis
    using dpos unfolding y_def e_def x_def
    by (simp add: days_of_def int_true_divide_def Let_def)
qed

lemma days_of_overflow_example:
  "days_of (10 ^ 400)
     = Inl (PyExc ''OverflowError'' ''integer division result too large for a float'')"
  by (rule days_of_overflow) simp

subsection \<open>The tool and the demo engine\<close>

lemma try_body_independent:
  "fst (try_body E carbs b1 w1 d s) = fst (try_body E carbs b2 w2 d s) \<and>
   os (snd (try_body E carbs b1 w1 d s)) = os (snd (try_body E carbs b2 w2 d s)) \<and>
   initialized (snd (try_body E carbs b1 w1 d s))
     = initialized (snd (try_body E carbs b2 w2 d s))"
  by (simp add: try_body_def ensure_pymgipsim_initialized_def Let_def
      split: prod.splits option.splits sum.splits)

lemma simulate_output:
  "fst (simulate_glucose_dynamics E carbs b w d s) =
     (case fst (try_body E carbs b w d s) of
        Inl e \<Rightarrow> on_exception e
      | Inr r \<Rightarrow> Inr (Json r))"
  by (simp add: simulate_glucose_dynamics_def split: prod.splits sum.splits)

lemma simulate_process:
  "os (snd (simulate_glucose_dynamics E carbs b w d s)) = os (snd (try_body E carbs b w d s)) \<and>
   initialized (snd (simulate_glucose_dynamics E carbs b w d s))
     = initialized (snd (try_body E carbs b w d s))"
  by (simp add: simulate_glucose_dynamics_def split: prod.splits sum.splits)

lemma on_exception_not_result: "on_exception e \<noteq> Inr (Json r)"
  by (simp add: on_exception_def)

lemma days_of_120: "days_of 120 = Inr 1"
  using days_of_exact [of 120] by simp

lemma demo_args:
  "map_parameters carbs days demo_defaults =
     [''scenario_name'' \<mapsto> PyNone,
      ''number_of_days'' \<mapsto> PyInt days,
      ''breakfast_carb_range'' \<mapsto> PyList [carbs, carbs],
      ''running_start_time'' \<mapsto> PyList [PyStr ''00:00'']]"
  by (rule ext) (simp add: map_parameters_def set_if_present_def hasattr_def demo_defaults_def Let_def)

lemma demo_run:
  "days_of d = Inr n \<Longrightarrow>
   run_engine demo_engine carbs d w = (Inr demo_cohort, w\<lparr>world := Suc (world w)\<rparr>)"
  by (simp add: run_engine_def prepare_scenario_def bind_action_def pure_action_def
      getattr_def demo_engine_def demo_args Let_def)

lemma bind_action_raise: "m w = (Inl e, w') \<Longrightarrow> bind_action m f w = (Inl e, w')"
  by (simp add: bind_action_def)

lemma bind_action_return: "m w = (Inr a, w') \<Longrightarrow> bind_action m f w = f a w'"
  by (simp add: bind_action_def)

lemma ensure_logs_fst:
  "fst (ensure_pymgipsim_initialized E (s\<lparr>logs := l\<rparr>)) = fst (ensure_pymgipsim_initialized E s)"
  by (simp add: ensure_pymgipsim_initialized_def Let_def split: prod.splits option.splits)

lemma ensure_logs_os:
  "os (snd (ensure_pymgipsim_initialized E (s\<lparr>logs := l\<rparr>)))
     = os (snd (ensure_pymgipsim_initialized E s))"
  by (simp add: ensure_pymgipsim_initialized_def Let_def split: prod.splits option.splits)

lemma try_body_result:
  "fst (try_body E carbs b w d s) =
     (case fst (ensure_pymgipsim_initialized E s) of
        Some e \<Rightarrow> Inl e
      | None \<Rightarrow>
          (case fst (run_engine E carbs d (os (snd (ensure_pymgipsim_initialized E s)))) of
             Inl e \<Rightarrow> Inl e
           | Inr c \<Rightarrow> postprocess (concentration_mmolL_to_mgdL E) c d))"
proof -
  define s0 where "s0 = s\<lparr>logs := logs s @ [LogStart carbs b w d]\<rparr>"
  have "fst (try_body E carbs b w d s) =
     (case fst (ensure_pymgipsim_initialized E s0) of
        Some e \<Rightarrow> Inl e
      | None \<Rightarrow>
          (case fst (run_engine E carbs d (os (snd (ensure_pymgipsim_initialized E s0)))) of
             Inl e \<Rightarrow> Inl e
           | Inr c \<Rightarrow> postprocess (concentration_mmolL_to_mgdL E) c d))"
    by (simp add: try_body_def Let_def s0_def split: prod.splits option.splits sum.splits)
  then show ?thesis unfolding s0_def ensure_logs_fst ensure_logs_os .
qed

lemma demo_ensure:
  "fst (ensure_pymgipsim_initialized demo_engine demo_server) = None \<and>
   os (snd (ensure_pymgipsim_initialized demo_engine demo_server))
     = \<lparr>cwd = ''/home/user'', world = 0\<rparr>"
  by (simp add: ensure_pymgipsim_initialized_def Let_def demo_engine_def demo_server_def)




lemma demo_postprocess: "postprocess (\<lambda>x. 18 * x) demo_cohort 120 = Inr demo_result"
  by (simp add: postprocess_def normalize_glucose_def glucose_raw_def py_index_def
      summarize_def mask_select_def np_min_def np_max_def classify_def
      subsample_def py_round1_def round_half_even_def Let_def demo_cohort_def demo_result_def)

lemma demo_simulate:
  "fst (simulate_glucose_dynamics demo_engine carbs b w 120 demo_server)
     = Inr (Json demo_result)"
proof -
  have "concentration_mmolL_to_mgdL demo_engine = (\<lambda>x. 18 * x)"
    by (simp add: demo_engine_def)
  then show ?thesis
    by (simp add: simulate_output try_body_result demo_ensure demo_run [OF days_of_120]
        demo_postprocess)
qed

lemma postprocess_success:
  assumes "postprocess f c d = Inr r"
  shows "\<exists>glucose. normalize_glucose f c = Inr glucose \<and>
           summarize (time_as_unix c) glucose d = Inr r"
  using assms by (auto simp: postprocess_def split: sum.splits)

lemma simulate_success:
  assumes "fst (simulate_glucose_dynamics E carbs b w d s) = Inr (Json r)"
  shows "\<exists>c. fst (run_engine E carbs d (os (snd (ensure_pymgipsim_initialized E s)))) = Inr c \<and>
           postprocess (concentration_mmolL_to_mgdL E) c d = Inr r"
  using assms unfolding simulate_output try_body_result
  by (auto simp: on_exception_not_result split: sum.splits option.splits)

lemma truncated_set:
  "set (truncated ts gs d) = {p \<in> set (zip ts gs). fst p \<le> real_of_int d}"
  by (auto simp: truncated_def)

lemma summarize_times_bounded:
  assumes "summarize ts gs d = Inr r" and "e \<in> set (cgm_trace r)"
  shows "time_min e \<le> real_of_int d"
proof -
  from assms(1) have len: "length ts = length gs" and ne: "truncated ts gs d \<noteq> []"
    using summarize_Inr_iff by blast+
  have trace: "cgm_trace r = subsample (map fst (truncated ts gs d)) (map snd (truncated ts gs d))"
    using assms(1) unfolding summarize_nonempty [OF len ne] by auto
  have "time_min ` set (cgm_trace r) \<subseteq> set (map fst (truncated ts gs d))"
    unfolding trace by (rule subsample_time_set) simp
  with assms(2) have "time_min e \<in> fst ` set (truncated ts gs d)" by auto
  then show ?thesis by (auto simp: truncated_def)
qed


lemma run_engine_stages:
  assumes "parse_default_args E pa = (Inr defaults, pb)" and "days_of d = Inr days"
  shows "run_engine E carbs d pa =
     bind_action (create_simulation_results_folder E) (\<lambda>path.
       bind_action
         (bind_action (load_settings_file E (map_parameters carbs days defaults) path)
            (\<lambda>settings_file.
          bind_action
            (pure_action (getattr (map_parameters carbs days defaults) ''scenario_name''))
            (\<lambda>scenario_name.
             if \<not> py_truthy scenario_name then
               bind_action
                 (generate_simulation_settings_main E settings_file
                    (map_parameters carbs days defaults) path) (\<lambda>sb.
               bind_action
                 (generate_virtual_subjects_main E sb (map_parameters carbs days defaults) path)
                 (\<lambda>sc.
               bind_action (activity_args_to_scenario E sc (map_parameters carbs days defaults))
                 (\<lambda>sd.
                 generate_inputs_main E sd (map_parameters carbs days defaults) path)))
             else pure_action (Inr settings_file))))
         (\<lambda>scenario.
            generate_results_main E scenario (map_parameters carbs days defaults) path)) pb"
proof -
  have "run_engine E carbs d pa =
      bind_action (pure_action (days_of d)) (\<lambda>days.
        let args = map_parameters carbs days defaults
        in bind_action (create_simulation_results_folder E) (\<lambda>results_folder_path.
           bind_action (prepare_scenario E args results_folder_path) (\<lambda>settings_file.
             generate_results_main E settings_file args results_folder_path))) pb"
    unfolding run_engine_def by (rule bind_action_return) (rule assms(1))
  also have "\<dots> =
      bind_action (create_simulation_results_folder E) (\<lambda>results_folder_path.
        bind_action
          (prepare_scenario E (map_parameters carbs days defaults) results_folder_path)
          (\<lambda>settings_file.
             generate_results_main E settings_file (map_parameters carbs days defaults)
               results_folder_path)) pb"
    by (rule trans [OF bind_action_return [of _ pb days pb]])
      (simp_all add: pure_action_def assms(2) Let_def)
  finally show ?thesis unfolding prepare_scenario_def .
qed

section \<open>The claims\<close>

text \<open>
  C4, as the claim states it, fails: line 105 divides in float64, and for
  \<open>duration_minutes = 1440 * 2 ^ 43 + 1\<close> the quotient rounds down to \<open>2 ^ 43\<close>, so
  the number of days is one less than the ceiling of the exact quotient.
\<close>

theorem large_duration_rounds_down:
  "days_of 12666373951979521 = Inr 8796093022208 \<and>
   max 1 \<lceil>real_of_int 12666373951979521 / 1440\<rceil> = 8796093022209"
  using days_of_big by simp

text \<open>
  C4, amended. For a positive \<open>duration_minutes\<close> of at most \<open>1440 * 2 ^ 43\<close> the number
  of days is \<open>max(1, ceil(duration_minutes / 1440))\<close>, the quotient of
  \<open>duration_minutes + 1439\<close> by 1440: one day for 1 to 1440 minutes, two days for 1441
  to 2880 minutes. It is the \<open>number_of_days\<close> of the namespace that every entry point
  of the engine called after the parser receives.
\<close>

theorem days_passed_to_engine:
  "0 < d \<Longrightarrow> d \<le> 1440 * 2 ^ 43 \<Longrightarrow>
     days_of d = Inr (max 1 \<lceil>real_of_int d / 1440\<rceil>) \<and>
     max 1 \<lceil>real_of_int d / 1440\<rceil> = (d + 1439) div 1440 \<and>
     (d \<le> 1440 \<longrightarrow> days_of d = Inr 1) \<and>
     (1440 < d \<and> d \<le> 2880 \<longrightarrow> days_of d = Inr 2) \<and>
     (let days = max 1 \<lceil>real_of_int d / 1440\<rceil>;
          args = map_parameters carbs days defaults
      in args ''number_of_days'' = Some (PyInt days) \<and>
         (parse_default_args E pa = (Inr defaults, pb) \<longrightarrow>
            run_engine E carbs d pa =
              bind_action (create_simulation_results_folder E) (\<lambda>path.
                bind_action
                  (bind_action (load_settings_file E args path) (\<lambda>settings_file.
                   bind_action (pure_action (getattr args ''scenario_name''))
                     (\<lambda>scenario_name.
                      if \<not> py_truthy scenario_name then
                        bind_action
                          (generate_simulation_settings_main E settings_file args path)
                          (\<lambda>sb.
                        bind_action (generate_virtual_subjects_main E sb args path) (\<lambda>sc.
                        bind_action (activity_args_to_scenario E sc args) (\<lambda>sd.
                          generate_inputs_main E sd args path)))
                      else pure_action (Inr settings_file))))
                  (\<lambda>scenario. generate_results_main E scenario args path)) pb))"
proof -
  assume pos: "0 < d" and bound: "d \<le> 1440 * 2 ^ 43"
  have exact: "days_of d = Inr (max 1 \<lceil>real_of_int d / 1440\<rceil>)"
    using pos bound by (rule days_of_exact)
  have quotient: "max 1 \<lceil>real_of_int d / 1440\<rceil> = (d + 1439) div 1440"
    using pos unfolding ceiling_days by linarith
  have one: "days_of d = Inr 1" if "d \<le> 1440"
    unfolding exact ceiling_days using pos that by simp
  have two: "days_of d = Inr 2" if "1440 < d \<and> d \<le> 2880"
  proof -
    from that have "max 1 (- ((- d) div 1440)) = 2" by linarith
    then show ?thesis unfolding exact ceiling_days by simp
  qed
  show ?thesis
    unfolding Let_def
    using exact quotient one two number_of_days_set run_engine_stages [OF _ exact]
    by (intro conjI impI) blast+
qed

theorem days_passed_to_engine_witness:
  "(0::int) < 1500 \<and> (1500::int) \<le> 1440 * 2 ^ 43 \<and> (1440::int) < 1500 \<and>
   (1500::int) \<le> 2880 \<and>
   days_of 1500 = Inr 2 \<and>
   (0::int) < 120 \<and> (120::int) \<le> 1440 \<and> days_of 120 = Inr 1 \<and>
   (0::int) < 12666373951979520 \<and> (12666373951979520::int) \<le> 1440 * 2 ^ 43 \<and>
   days_of 12666373951979520 = Inr 8796093022208 \<and>
   parse_default_args demo_engine (os demo_server) = (Inr demo_defaults, os demo_server) \<and>
   map_parameters (PyFloat 100) 2 demo_defaults ''number_of_days'' = Some (PyInt 2) \<and>
   run_engine demo_engine (PyFloat 100) 1500 (os demo_server)
     = (Inr demo_cohort, \<lparr>cwd = ''/home/user'', world = Suc 0\<rparr>)"
proof -
  note short = days_passed_to_engine [of 120 "PyFloat 100" demo_defaults demo_engine]
  note long = days_passed_to_engine
    [of 1500 "PyFloat 100" demo_defaults demo_engine "os demo_server" "os demo_server"]
  note last = days_passed_to_engine [of 12666373951979520 "PyFloat 100" demo_defaults demo_engine]
  have parse: "parse_default_args demo_engine (os demo_server)
      = (Inr demo_defaults, os demo_server)"
    by (simp add: demo_engine_def)
  have d1: "days_of 120 = Inr 1" using short by simp
  have d2: "days_of 1500 = Inr 2" using long by simp
  have d3: "days_of 12666373951979520 = Inr 8796093022208" using last by simp
  have args: "map_parameters (PyFloat 100) 2 demo_defaults ''number_of_days'' = Some (PyInt 2)"
    using long by (simp add: Let_def)
  have run: "run_engine demo_engine (PyFloat 100) 1500 (os demo_server)
     = (Inr demo_cohort, \<lparr>cwd = ''/home/user'', world = Suc 0\<rparr>)"
    by (simp add: demo_run [OF d2] demo_server_def)
  from parse d1 d2 d3 args run show ?thesis by simp
qed

text \<open>
  C2. When the truncated glucose sequence is not empty the request is summarised, and the
  status is \<open>Hypoglycemia (Low)\<close> if its minimum is below 70, else
  \<open>Hyperglycemia (High)\<close> if its maximum is above 180, else \<open>Normal\<close>; a sequence that
  crosses both thresholds is classified low.
\<close>

theorem status_classification:
  "length ts = length gs \<Longrightarrow> truncated ts gs d \<noteq> [] \<Longrightarrow>
   \<exists>r. summarize ts gs d = Inr r \<and>
     (let glucose = map snd (truncated ts gs d)
      in status (summary r) =
           (if Min (set glucose) < 70 then ''Hypoglycemia (Low)''
            else if 180 < Max (set glucose) then ''Hyperglycemia (High)''
            else ''Normal'') \<and>
         (Min (set glucose) < 70 \<and> 180 < Max (set glucose)
            \<longrightarrow> status (summary r) = ''Hypoglycemia (Low)''))"
  by (simp add: summarize_nonempty classify_def Let_def del: set_map)

theorem status_classification_witness:
  "length sample_times = length sample_glucose \<and>
   truncated sample_times sample_glucose 16 \<noteq> [] \<and>
   Min (set (map snd (truncated sample_times sample_glucose 16))) < 70 \<and>
   180 < Max (set (map snd (truncated sample_times sample_glucose 16))) \<and>
   (\<exists>r. summarize sample_times sample_glucose 16 = Inr r \<and>
        status (summary r) = ''Hypoglycemia (Low)'')"
proof -
  have len: "length sample_times = length sample_glucose"
    by (simp add: sample_times_def sample_glucose_def)
  have ne: "truncated sample_times sample_glucose 16 \<noteq> []"
    by (simp add: sample_truncated)
  have lo: "Min (set (map snd (truncated sample_times sample_glucose 16))) < 70"
    by (simp add: sample_truncated)
  have hi: "180 < Max (set (map snd (truncated sample_times sample_glucose 16)))"
    by (simp add: sample_truncated)
  from status_classification [OF len ne] lo hi
  have "\<exists>r. summarize sample_times sample_glucose 16 = Inr r \<and>
        status (summary r) = ''Hypoglycemia (Low)''"
    unfolding Let_def by blast
  with len ne lo hi show ?thesis by blast
qed

text \<open>
  C3. For a truncated sequence of length \<open>L \<ge> 1\<close> the trace holds the entries at the
  positions \<open>kept_indices L\<close>, which are the multiples of 15 below \<open>L\<close> and \<open>L - 1\<close>, each
  once and in ascending order; the times of the trace ascend when those of the sequence
  do, and each glucose value is rounded to a multiple of one tenth at most one twentieth
  away.
\<close>

theorem cgm_trace_subsample:
  "length ts = length gs \<Longrightarrow> truncated ts gs d \<noteq> [] \<Longrightarrow>
   \<exists>r. summarize ts gs d = Inr r \<and>
     (let kept = truncated ts gs d; L = length kept
      in cgm_trace r =
           map (\<lambda>i. \<lparr>time_min = fst (kept ! i), glucose_mg_dl = py_round1 (snd (kept ! i))\<rparr>)
             (kept_indices L) \<and>
         set (kept_indices L) = {i. i < L \<and> i mod 15 = 0} \<union> {L - 1} \<and>
         sorted_wrt (<) (kept_indices L) \<and>
         distinct (kept_indices L) \<and>
         (sorted_wrt (<) (map fst kept)
            \<longrightarrow> sorted_wrt (<) (map time_min (cgm_trace r)))) \<and>
     (\<forall>x. \<exists>k::int. py_round1 x = real_of_int k / 10 \<and> \<bar>py_round1 x - x\<bar> \<le> 1 / 20)"
proof -
  assume len: "length ts = length gs" and ne: "truncated ts gs d \<noteq> []"
  define kept where "kept = truncated ts gs d"
  define L where "L = length kept"
  define r where "r = (case summarize ts gs d of Inr r \<Rightarrow> r)"
  have r: "summarize ts gs d = Inr r"
    by (simp add: r_def summarize_nonempty [OF len ne])
  have pos: "0 < L" using ne by (simp add: L_def kept_def)
  have trace: "cgm_trace r = subsample (map fst kept) (map snd kept)"
    using r unfolding summarize_nonempty [OF len ne] kept_def by auto
  have below: "i < length kept" if "i \<in> set (kept_indices L)" for i
    using that by (simp add: kept_indices_def L_def)
  have entries: "cgm_trace r =
      map (\<lambda>i. \<lparr>time_min = fst (kept ! i), glucose_mg_dl = py_round1 (snd (kept ! i))\<rparr>)
        (kept_indices L)"
    unfolding trace by (simp add: subsample_indices L_def below cong: map_cong)
  have times: "map time_min (cgm_trace r) = map ((!) (map fst kept)) (kept_indices L)"
    unfolding trace by (simp add: subsample_times L_def)
  have asc: "sorted_wrt (<) (map time_min (cgm_trace r))" if "sorted_wrt (<) (map fst kept)"
    unfolding times using that sorted_kept_indices
    by (rule nth_sorted_indices) (simp add: below)
  have dist: "distinct (kept_indices L)"
    using sorted_kept_indices [of L] by (simp add: strict_sorted_iff)
  have rounding: "\<exists>k::int. py_round1 x = real_of_int k / 10 \<and> \<bar>py_round1 x - x\<bar> \<le> 1 / 20"
    for x using py_round1_tenth [of x] py_round1_close [of x] by blast
  show ?thesis
    unfolding Let_def kept_def [symmetric] L_def [symmetric]
    using r entries set_kept_indices [OF pos] sorted_kept_indices [of L] dist asc rounding
    by blast
qed

theorem cgm_trace_subsample_witness:
  "length sample_times = length sample_glucose \<and>
   truncated sample_times sample_glucose 16 \<noteq> [] \<and>
   length (truncated sample_times sample_glucose 16) = 17 \<and>
   kept_indices 17 = [0, 15, 16] \<and>
   kept_indices 16 = [0, 15] \<and>
   sorted_wrt (<) (map fst (truncated sample_times sample_glucose 16)) \<and>
   (\<exists>r. summarize sample_times sample_glucose 16 = Inr r \<and>
        cgm_trace r =
          [\<lparr>time_min = 0, glucose_mg_dl = 100\<rparr>,
           \<lparr>time_min = 15, glucose_mg_dl = 118\<rparr>,
           \<lparr>time_min = 16, glucose_mg_dl = 115.6\<rparr>] \<and>
        sorted_wrt (<) (map time_min (cgm_trace r)))"
proof -
  have len: "length sample_times = length sample_glucose"
    by (simp add: sample_times_def sample_glucose_def)
  have ne: "truncated sample_times sample_glucose 16 \<noteq> []"
    by (simp add: sample_truncated)
  have asc: "sorted_wrt (<) (map fst (truncated sample_times sample_glucose 16))"
    by (simp add: sample_truncated)
  from cgm_trace_subsample [OF len ne] asc
  obtain r where r: "summarize sample_times sample_glucose 16 = Inr r"
    and sorted: "sorted_wrt (<) (map time_min (cgm_trace r))"
    unfolding Let_def by blast
  from r have "r = sample_result" by (simp add: sample_summary)
  then have "cgm_trace r =
          [\<lparr>time_min = 0, glucose_mg_dl = 100\<rparr>,
           \<lparr>time_min = 15, glucose_mg_dl = 118\<rparr>,
           \<lparr>time_min = 16, glucose_mg_dl = 115.6\<rparr>]"
    by (simp add: sample_result_def)
  with r sorted len ne asc kept_indices_17 kept_indices_16 show ?thesis
    by (auto simp: sample_truncated)
qed



text \<open>
  C7. When the unit of the glucose state is \<open>mmol/L\<close> the normalised sequence is the
  engine's conversion applied to each raw value divided by \<open>VG[0]\<close>, a volume that is
  not zero; for any other unit, \<open>mg/dL\<close> among them, it is the raw sequence.
\<close>

theorem unit_normalization:
  "glucose_raw c = Inr raw \<Longrightarrow> py_index (state_units c) (glucose_state c) = Inr u \<Longrightarrow>
   (u = ''mmol/L'' \<longrightarrow>
      (\<forall>v vs. VG c = v # vs \<and> v \<noteq> 0 \<longrightarrow>
         normalize_glucose to_mgdL c = Inr (map (\<lambda>x. to_mgdL (x / v)) raw))) \<and>
   (u \<noteq> ''mmol/L'' \<longrightarrow> normalize_glucose to_mgdL c = Inr raw) \<and>
   (u = ''mg/dL'' \<longrightarrow> normalize_glucose to_mgdL c = Inr raw)"
  by (auto simp: normalize_glucose_def py_index_def)

theorem unit_normalization_witness:
  "glucose_raw molar_cohort = Inr [60, 120, 90] \<and>
   py_index (state_units molar_cohort) (glucose_state molar_cohort) = Inr ''mmol/L'' \<and>
   VG molar_cohort = [12] \<and>
   normalize_glucose (\<lambda>x. 18 * x) molar_cohort = Inr [90, 180, 135] \<and>
   glucose_raw demo_cohort = Inr [110, 150, 190, 160, 120] \<and>
   py_index (state_units demo_cohort) (glucose_state demo_cohort) = Inr ''mg/dL'' \<and>
   normalize_glucose (\<lambda>x. 18 * x) demo_cohort = Inr [110, 150, 190, 160, 120]"
proof -
  have m1: "glucose_raw molar_cohort = Inr [60, 120, 90]"
    by (simp add: glucose_raw_def py_index_def molar_cohort_def)
  have m2: "py_index (state_units molar_cohort) (glucose_state molar_cohort) = Inr ''mmol/L''"
    by (simp add: py_index_def molar_cohort_def)
  have m3: "VG molar_cohort = [12]" by (simp add: molar_cohort_def)
  have d1: "glucose_raw demo_cohort = Inr [110, 150, 190, 160, 120]"
    by (simp add: glucose_raw_def py_index_def demo_cohort_def)
  have d2: "py_index (state_units demo_cohort) (glucose_state demo_cohort) = Inr ''mg/dL''"
    by (simp add: py_index_def demo_cohort_def)
  show ?thesis
    using unit_normalization [OF m1 m2, of "\<lambda>x. 18 * x"]
      unit_normalization [OF d1 d2, of "\<lambda>x. 18 * x"] m1 m2 m3 d1 d2
    by simp
qed

text \<open>
  C9. The guard leaves the working directory as it found it on every path. Once
  initialized it does nothing. Otherwise it runs the initialization with the working
  directory set to the engine's directory, passes on what the initialization raises,
  keeps what it did to the rest of the process, puts the old directory back also when
  it raised, and sets the flag only when it did not raise.
\<close>

theorem working_directory_restored:
  "cwd (os (snd (ensure_pymgipsim_initialized E s))) = cwd (os s) \<and>
   (initialized s \<longrightarrow> ensure_pymgipsim_initialized E s = (None, s)) \<and>
   (\<not> initialized s \<longrightarrow>
      fst (ensure_pymgipsim_initialized E s)
        = fst (initialization E ((os s)\<lparr>cwd := PY_MGIPSIM_DIR E\<rparr>)) \<and>
      world (os (snd (ensure_pymgipsim_initialized E s)))
        = world (snd (initialization E ((os s)\<lparr>cwd := PY_MGIPSIM_DIR E\<rparr>))) \<and>
      initialized (snd (ensure_pymgipsim_initialized E s))
        = (fst (initialization E ((os s)\<lparr>cwd := PY_MGIPSIM_DIR E\<rparr>)) = None))"
  by (simp add: ensure_pymgipsim_initialized_def Let_def split: prod.splits option.splits)

theorem working_directory_restored_witness:
  "\<not> initialized demo_server \<and>
   cwd (os demo_server) = ''/home/user'' \<and>
   PY_MGIPSIM_DIR broken_engine = ''/srv/app/py_mgipsim'' \<and>
   initialization broken_engine ((os demo_server)\<lparr>cwd := ''/srv/app/py_mgipsim''\<rparr>)
     = (Some (PyExc ''OSError'' ''cannot create the results folder''), \<lparr>cwd = ''/tmp'', world = 0\<rparr>) \<and>
   fst (ensure_pymgipsim_initialized broken_engine demo_server)
     = Some (PyExc ''OSError'' ''cannot create the results folder'') \<and>
   cwd (os (snd (ensure_pymgipsim_initialized broken_engine demo_server))) = ''/home/user'' \<and>
   \<not> initialized (snd (ensure_pymgipsim_initialized broken_engine demo_server)) \<and>
   fst (ensure_pymgipsim_initialized demo_engine demo_server) = None \<and>
   cwd (os (snd (ensure_pymgipsim_initialized demo_engine demo_server))) = ''/home/user'' \<and>
   initialized (snd (ensure_pymgipsim_initialized demo_engine demo_server)) \<and>
   ensure_pymgipsim_initialized demo_engine
       (snd (ensure_pymgipsim_initialized demo_engine demo_server))
     = (None, snd (ensure_pymgipsim_initialized demo_engine demo_server))"
proof -
  have dir: "PY_MGIPSIM_DIR broken_engine = ''/srv/app/py_mgipsim''"
    "PY_MGIPSIM_DIR demo_engine = ''/srv/app/py_mgipsim''"
    by (simp_all add: PY_MGIPSIM_DIR_def path_join_def broken_engine_def demo_engine_def)
  have init: "initialization broken_engine ((os demo_server)\<lparr>cwd := ''/srv/app/py_mgipsim''\<rparr>)
     = (Some (PyExc ''OSError'' ''cannot create the results folder''), \<lparr>cwd = ''/tmp'', world = 0\<rparr>)"
    "fst (initialization demo_engine ((os demo_server)\<lparr>cwd := ''/srv/app/py_mgipsim''\<rparr>)) = None"
    by (simp_all add: broken_engine_def demo_engine_def demo_server_def)
  have start: "\<not> initialized demo_server" "cwd (os demo_server) = ''/home/user''"
    by (simp_all add: demo_server_def)
  note broken = working_directory_restored [of broken_engine demo_server]
  note first = working_directory_restored [of demo_engine demo_server]
  note second = working_directory_restored
    [of demo_engine "snd (ensure_pymgipsim_initialized demo_engine demo_server)"]
  from broken first second dir init start show ?thesis by simp
qed

text \<open>
  C10. Two calls that differ only in \<open>insulin_bolus\<close> and \<open>body_weight\<close>, on the same
  engine and from the same state, return the same text and leave the same process and
  the same flag: both values go to the log record of line 89 and nowhere else.
\<close>

theorem bolus_and_weight_unused:
  "fst (simulate_glucose_dynamics E carbs b1 w1 d s)
     = fst (simulate_glucose_dynamics E carbs b2 w2 d s) \<and>
   os (snd (simulate_glucose_dynamics E carbs b1 w1 d s))
     = os (snd (simulate_glucose_dynamics E carbs b2 w2 d s)) \<and>
   initialized (snd (simulate_glucose_dynamics E carbs b1 w1 d s))
     = initialized (snd (simulate_glucose_dynamics E carbs b2 w2 d s))"
  using try_body_independent [of E carbs b1 w1 d s b2 w2]
  by (simp add: simulate_output simulate_process)

text \<open>
  C5. When the tool returns a result, the engine returned a cohort whose time axis and
  normalised glucose have the same length, the kept entries are exactly the pairs whose
  time is at most \<open>duration_minutes\<close>, summary and trace are computed from the kept
  entries alone, and every entry of \<open>cgm_trace\<close> has \<open>time_min \<le> duration_minutes\<close>.
\<close>

theorem trace_within_duration:
  "fst (simulate_glucose_dynamics E carbs b w d s) = Inr (Json r) \<Longrightarrow>
   (\<exists>c glucose.
      fst (run_engine E carbs d (os (snd (ensure_pymgipsim_initialized E s)))) = Inr c \<and>
      normalize_glucose (concentration_mmolL_to_mgdL E) c = Inr glucose \<and>
      length (time_as_unix c) = length glucose \<and>
      (let kept = truncated (time_as_unix c) glucose d
       in set kept = {p \<in> set (zip (time_as_unix c) glucose). fst p \<le> real_of_int d} \<and>
          kept \<noteq> [] \<and>
          summarize (time_as_unix c) glucose d = Inr r \<and>
          summarize (map fst kept) (map snd kept) d = Inr r \<and>
          cgm_trace r = subsample (map fst kept) (map snd kept))) \<and>
   (\<forall>e \<in> set (cgm_trace r). time_min e \<le> real_of_int d)"
proof -
  assume ok: "fst (simulate_glucose_dynamics E carbs b w d s) = Inr (Json r)"
  from simulate_success [OF ok] obtain c
    where c: "fst (run_engine E carbs d (os (snd (ensure_pymgipsim_initialized E s)))) = Inr c"
      and post: "postprocess (concentration_mmolL_to_mgdL E) c d = Inr r"
    by blast
  from postprocess_success [OF post] obtain glucose
    where g: "normalize_glucose (concentration_mmolL_to_mgdL E) c = Inr glucose"
      and r: "summarize (time_as_unix c) glucose d = Inr r"
    by blast
  let ?kept = "truncated (time_as_unix c) glucose d"
  from r have len: "length (time_as_unix c) = length glucose" and ne: "?kept \<noteq> []"
    using summarize_Inr_iff by blast+
  have trace: "cgm_trace r = subsample (map fst ?kept) (map snd ?kept)"
    using r unfolding summarize_nonempty [OF len ne] by auto
  have again: "truncated (map fst ?kept) (map snd ?kept) d = ?kept"
    unfolding truncated_def zip_map_fst_snd by (simp add: case_prod_unfold)
  have len2: "length (map fst ?kept) = length (map snd ?kept)" by simp
  have ne2: "truncated (map fst ?kept) (map snd ?kept) d \<noteq> []"
    unfolding again by (rule ne)
  have "summarize (map fst ?kept) (map snd ?kept) d = summarize (time_as_unix c) glucose d"
    unfolding summarize_nonempty [OF len2 ne2] summarize_nonempty [OF len ne] again ..
  with r have idem: "summarize (map fst ?kept) (map snd ?kept) d = Inr r"
    by simp
  have bound: "\<forall>e \<in> set (cgm_trace r). time_min e \<le> real_of_int d"
    using summarize_times_bounded [OF r] by blast
  have "fst (run_engine E carbs d (os (snd (ensure_pymgipsim_initialized E s)))) = Inr c \<and>
      normalize_glucose (concentration_mmolL_to_mgdL E) c = Inr glucose \<and>
      length (time_as_unix c) = length glucose \<and>
      (let kept = truncated (time_as_unix c) glucose d
       in set kept = {p \<in> set (zip (time_as_unix c) glucose). fst p \<le> real_of_int d} \<and>
          kept \<noteq> [] \<and>
          summarize (time_as_unix c) glucose d = Inr r \<and>
          summarize (map fst kept) (map snd kept) d = Inr r \<and>
          cgm_trace r = subsample (map fst kept) (map snd kept))"
    unfolding Let_def
    using c g len ne r idem trace truncated_set [of "time_as_unix c" glucose d]
    by (intro conjI) assumption+
  then show ?thesis using bound by blast
qed

theorem trace_within_duration_witness:
  "fst (simulate_glucose_dynamics demo_engine (PyFloat 100) 0 70 120 demo_server)
     = Inr (Json demo_result) \<and>
   cgm_trace demo_result
     = [\<lparr>time_min = 0, glucose_mg_dl = 110\<rparr>, \<lparr>time_min = 120, glucose_mg_dl = 190\<rparr>] \<and>
   time_as_unix demo_cohort = [0, 60, 120, 180, 240] \<and>
   list_all (\<lambda>e. time_min e \<le> 120) (cgm_trace demo_result)"
proof -
  have run: "fst (simulate_glucose_dynamics demo_engine (PyFloat 100) 0 70 120 demo_server)
     = Inr (Json demo_result)"
    by (rule demo_simulate)
  note bounded = trace_within_duration [OF run]
  have "list_all (\<lambda>e. time_min e \<le> 120) (cgm_trace demo_result)"
    using bounded by (simp add: list_all_iff)
  with run show ?thesis by (simp add: demo_result_def demo_cohort_def)
qed




end
